theory Spec2Isabelle
  imports Complex_Main "HOL-Library.Monad_Syntax"
begin

section \<open>Numeric conventions\<close>

text \<open>
  The flux kernels and depth-scale estimators of \<^verbatim>\<open>pycheops/models.py\<close> compute with
  float64. The embedding computes with exact reals: a finite float is the real it denotes,
  and rounding, overflow and underflow are not modelled. What the float computation does
  beyond the finite reals is written out where the source can reach it:

  \<^item> \<^verbatim>\<open>qpower2\<close>, \<^verbatim>\<open>scaled_transit_fit\<close> and \<^verbatim>\<open>ueclipse\<close> are compiled with
    \<^verbatim>\<open>@jit(nopython=True)\<close>, that is with the default error model of the compiler, under
    which a scalar float division by zero raises \<^verbatim>\<open>ZeroDivisionError\<close> as in Python;
  \<^item> a float that is \<^verbatim>\<open>nan\<close> or infinite is the value \<open>None\<close> of \<open>real option\<close>.

  Rounding can change the branch the code takes wherever a computed value is compared or
  divides. The properties below are therefore stated about calls that return, at inputs
  on which every float operation is exact, or for an arbitrary function in the place of a
  rounded one, so that they hold of the float computation as of the exact one.
\<close>

datatype error = ValueError | ZeroDivisionError

definition fdiv :: "real \<Rightarrow> real \<Rightarrow> error + real" where
  \<comment> \<open>scalar \<^verbatim>\<open>x / y\<close> in compiled code\<close>
  "fdiv x y = (if y = 0 then Inl ZeroDivisionError else Inr (x / y))"

definition bind_err :: "error + 'a \<Rightarrow> ('a \<Rightarrow> error + 'b) \<Rightarrow> error + 'b" where
  \<comment> \<open>sequencing: an exception raised by the first computation ends the call\<close>
  "bind_err r f = (case r of Inl e \<Rightarrow> Inl e | Inr x \<Rightarrow> f x)"

fun for_enumerate :: "(nat \<Rightarrow> 's \<Rightarrow> error + 's) \<Rightarrow> nat list \<Rightarrow> 's \<Rightarrow> error + 's" where
  \<comment> \<open>\<^verbatim>\<open>for i, zi in enumerate(z): body\<close>, the body updating the output array; an exception
      raised by the body ends the loop\<close>
  "for_enumerate body [] f = Inr f"
| "for_enumerate body (i # is) f =
     (case body i f of Inl e \<Rightarrow> Inl e | Inr f' \<Rightarrow> for_enumerate body is f')"

section \<open>The uniform-disc eclipse kernel\<close>

text \<open>
  \<^verbatim>\<open>
  def ueclipse(z,k):
      if (k > 1):
          raise ValueError("ueclipse requires k < 1")
      fl = np.ones_like(z)
      for i,zi in enumerate(z):
          zt = np.abs(zi)
          if zt <= (1-k):
              fl[i] = 0
          elif np.abs(zt-1) < k:
              t1 = np.arccos(min(max(-1,(zt**2+k**2-1)/(2*zt*k)),1))
              t2 = np.arccos(min(max(-1,(zt**2+1-k**2)/(2*zt)),1))
              t3 = 0.5*np.sqrt(max(0,(1+k-zt)*(zt+k-1)*(zt-k+1)*(zt+k+1)))
              fl[i] = 1 - (k**2*t1 + t2 - t3)/(np.pi*k**2)
      return fl
  \<close>
\<close>

definition ueclipse_body :: "real \<Rightarrow> real list \<Rightarrow> nat \<Rightarrow> real list \<Rightarrow> error + real list" where
  "ueclipse_body k z i fl =
     (let zt = \<bar>z ! i\<bar> in
      if zt \<le> 1 - k then Inr (fl[i := 0])
      else if \<bar>zt - 1\<bar> < k then
        (case fdiv (zt\<^sup>2 + k\<^sup>2 - 1) (2 * zt * k) of Inl e \<Rightarrow> Inl e | Inr q1 \<Rightarrow>
         let t1 = arccos (min (max (- 1) q1) 1) in
         (case fdiv (zt\<^sup>2 + 1 - k\<^sup>2) (2 * zt) of Inl e \<Rightarrow> Inl e | Inr q2 \<Rightarrow>
          let t2 = arccos (min (max (- 1) q2) 1);
              t3 = 0.5 * sqrt (max 0 ((1 + k - zt) * (zt + k - 1) * (zt - k + 1) * (zt + k + 1)))
          in (case fdiv (k\<^sup>2 * t1 + t2 - t3) (pi * k\<^sup>2) of Inl e \<Rightarrow> Inl e
              | Inr r \<Rightarrow> Inr (fl[i := 1 - r]))))
      else Inr fl)"

definition ueclipse :: "real list \<Rightarrow> real \<Rightarrow> error + real list" where
  "ueclipse z k =
     (if k > 1 then Inl ValueError
      else for_enumerate (ueclipse_body k z) [0..<length z] (replicate (length z) 1))"

section \<open>The power-2 limb-darkening transit kernel\<close>

text \<open>
  Float operations of \<^verbatim>\<open>qpower2\<close> that leave the finite reals: \<^verbatim>\<open>x**y\<close> is the C
  \<^verbatim>\<open>pow\<close> (infinite at a zero base with a negative exponent, \<^verbatim>\<open>nan\<close> at a negative base
  with a fractional exponent), \<^verbatim>\<open>np.sqrt\<close> is \<^verbatim>\<open>nan\<close> below zero and \<^verbatim>\<open>np.arccos\<close> is
  \<^verbatim>\<open>nan\<close> outside \<open>[-1, 1]\<close>. Sums, differences and products of a non-finite float are
  non-finite, so an entry computed from one is \<open>None\<close>.
\<close>

definition fpow :: "real \<Rightarrow> real \<Rightarrow> real option" where
  "fpow x y =
     (if 0 < x then Some (x powr y)
      else if x = 0 then (if 0 < y then Some 0 else if y = 0 then Some 1 else None)
      else if y = of_int \<lfloor>y\<rfloor>
        then Some ((if even \<lfloor>y\<rfloor> then 1 else - 1) * (\<bar>x\<bar> powr y))
        else None)"

definition fsqrt :: "real \<Rightarrow> real option" where
  "fsqrt x = (if x < 0 then None else Some (sqrt x))"

definition farccos :: "real \<Rightarrow> real option" where
  "farccos x = (if - 1 \<le> x \<and> x \<le> 1 then Some (arccos x) else None)"

text \<open>
  \<^verbatim>\<open>
  def qpower2(z,k,c,a):
      f = np.ones_like(z)
      I_0 = (a+2)/(np.pi*(a-c*a+2))
      g = 0.5*a
      for i,zi in enumerate(z):
          zt = np.abs(zi)
          if zt <= (1-k):
              s = 1-zt**2
              c0 = (1-c+c*s**g)
              c2 = 0.5*a*c*s**(g-2)*((a-1)*zt**2-1)
              f[i] = 1-I_0*np.pi*k**2*(
                      c0 + 0.25*k**2*c2 - 0.125*a*c*k**2*s**(g-1) )
          elif np.abs(zt-1) < k:
              d = (zt**2 - k**2 + 1)/(2*zt)
              ra = 0.5*(zt-k+d)
              rb = 0.5*(1+d)
              sa = 1-ra**2
              sb = 1-rb**2
              q = min(max(-1.,(zt-d)/k),1.)
              w2 = k**2-(d-zt)**2
              w = np.sqrt(w2)
              b0 = 1 - c + c*sa**g
              b1 = -a*c*ra*sa**(g-1)
              b2 = 0.5*a*c*sa**(g-2)*((a-1)*ra**2-1)
              a0 = b0 + b1*(zt-ra) + b2*(zt-ra)**2
              a1 = b1+2*b2*(zt-ra)
              aq = np.arccos(q)
              J1 = ( (a0*(d-zt)-(2/3)*a1*w2 +
                  0.25*b2*(d-zt)*(2*(d-zt)**2-k**2))*w
                   + (a0*k**2 + 0.25*b2*k**4)*aq )
              J2 = a*c*sa**(g-1)*k**4*(
                  0.125*aq + (1/12)*q*(q**2-2.5)*np.sqrt(max(0.,1-q**2)) )
              d0 = 1 - c + c*sb**g
              d1 = -a*c*rb*sb**(g-1)
              K1 = ((d0-rb*d1)*np.arccos(d) +
                      ((rb*d+(2/3)*(1-d**2))*d1 - d*d0) *
                      np.sqrt(max(0.,1-d**2)) )
              K2 = (1/3)*c*a*sb**(g+0.5)*(1-d)
              f[i] = 1 - I_0*(J1 - J2 + K1 - K2)
      return f
  \<close>
\<close>

definition qpower2_full :: "real \<Rightarrow> real \<Rightarrow> real \<Rightarrow> real \<Rightarrow> real \<Rightarrow> real \<Rightarrow> real option" where
  \<comment> \<open>the entry written in the branch \<^verbatim>\<open>zt <= (1-k)\<close>\<close>
  "qpower2_full I_0 g k c a zt =
     (let s = 1 - zt\<^sup>2 in
      do {
        sg \<leftarrow> fpow s g;
        let c0 = 1 - c + c * sg;
        sg2 \<leftarrow> fpow s (g - 2);
        let c2 = 0.5 * a * c * sg2 * ((a - 1) * zt\<^sup>2 - 1);
        sg1 \<leftarrow> fpow s (g - 1);
        Some (1 - I_0 * pi * k\<^sup>2 * (c0 + 0.25 * k\<^sup>2 * c2 - 0.125 * a * c * k\<^sup>2 * sg1))
      })"

definition qpower2_partial ::
  "real \<Rightarrow> real \<Rightarrow> real \<Rightarrow> real \<Rightarrow> real \<Rightarrow> real \<Rightarrow> real \<Rightarrow> real \<Rightarrow> real option" where
  \<comment> \<open>the entry written in the branch \<^verbatim>\<open>np.abs(zt-1) < k\<close>, from \<^verbatim>\<open>d\<close> and the unclipped
      quotient \<^verbatim>\<open>(zt-d)/k\<close>\<close>
  "qpower2_partial I_0 g k c a zt d q0 =
     (let ra = 0.5 * (zt - k + d);
          rb = 0.5 * (1 + d);
          sa = 1 - ra\<^sup>2;
          sb = 1 - rb\<^sup>2;
          q = min (max (- 1) q0) 1;
          w2 = k\<^sup>2 - (d - zt)\<^sup>2
      in do {
        w \<leftarrow> fsqrt w2;
        sag \<leftarrow> fpow sa g;
        let b0 = 1 - c + c * sag;
        sag1 \<leftarrow> fpow sa (g - 1);
        let b1 = - a * c * ra * sag1;
        sag2 \<leftarrow> fpow sa (g - 2);
        let b2 = 0.5 * a * c * sag2 * ((a - 1) * ra\<^sup>2 - 1);
        let a0 = b0 + b1 * (zt - ra) + b2 * (zt - ra)\<^sup>2;
        let a1 = b1 + 2 * b2 * (zt - ra);
        aq \<leftarrow> farccos q;
        let J1 = (a0 * (d - zt) - (2 / 3) * a1 * w2
                   + 0.25 * b2 * (d - zt) * (2 * (d - zt)\<^sup>2 - k\<^sup>2)) * w
                 + (a0 * k\<^sup>2 + 0.25 * b2 * k ^ 4) * aq;
        let J2 = a * c * sag1 * k ^ 4
                 * (0.125 * aq + (1 / 12) * q * (q\<^sup>2 - 2.5) * sqrt (max 0 (1 - q\<^sup>2)));
        sbg \<leftarrow> fpow sb g;
        let d0 = 1 - c + c * sbg;
        sbg1 \<leftarrow> fpow sb (g - 1);
        let d1 = - a * c * rb * sbg1;
        ad \<leftarrow> farccos d;
        let K1 = (d0 - rb * d1) * ad
                 + ((rb * d + (2 / 3) * (1 - d\<^sup>2)) * d1 - d * d0) * sqrt (max 0 (1 - d\<^sup>2));
        sbh \<leftarrow> fpow sb (g + 0.5);
        let K2 = (1 / 3) * c * a * sbh * (1 - d);
        Some (1 - I_0 * (J1 - J2 + K1 - K2))
      })"

definition qpower2_body ::
  "real \<Rightarrow> real \<Rightarrow> real \<Rightarrow> real \<Rightarrow> real \<Rightarrow> real list \<Rightarrow> nat \<Rightarrow> real option list
     \<Rightarrow> error + real option list" where
  "qpower2_body I_0 g k c a z i f =
     (let zt = \<bar>z ! i\<bar> in
      if zt \<le> 1 - k then Inr (f[i := qpower2_full I_0 g k c a zt])
      else if \<bar>zt - 1\<bar> < k then
        (case fdiv (zt\<^sup>2 - k\<^sup>2 + 1) (2 * zt) of Inl e \<Rightarrow> Inl e | Inr d \<Rightarrow>
         (case fdiv (zt - d) k of Inl e \<Rightarrow> Inl e | Inr q0 \<Rightarrow>
          Inr (f[i := qpower2_partial I_0 g k c a zt d q0])))
      else Inr f)"

definition qpower2 :: "real list \<Rightarrow> real \<Rightarrow> real \<Rightarrow> real \<Rightarrow> error + real option list" where
  "qpower2 z k c a =
     (case fdiv (a + 2) (pi * (a - c * a + 2)) of Inl e \<Rightarrow> Inl e | Inr I_0 \<Rightarrow>
      let g = 0.5 * a in
      for_enumerate (qpower2_body I_0 g k c a z) [0..<length z] (replicate (length z) (Some 1)))"

section \<open>The scaled-depth estimator with rescaled errors\<close>

text \<open>
  Arrays are lists of reals. A binary array operation follows the broadcasting rule for
  one-dimensional operands: equal lengths combine entry by entry, a length-one operand is
  stretched over the other, and any other pair of lengths raises \<^verbatim>\<open>ValueError\<close>. A scalar
  operand behaves as a length-one array.
\<close>

definition broadcast :: "('a \<Rightarrow> 'b \<Rightarrow> 'c) \<Rightarrow> 'a list \<Rightarrow> 'b list \<Rightarrow> error + 'c list" where
  "broadcast f xs ys =
     (if length xs = length ys then Inr (map2 f xs ys)
      else if length xs = 1 then Inr (map (f (hd xs)) ys)
      else if length ys = 1 then Inr (map (\<lambda>x. f x (hd ys)) xs)
      else Inl ValueError)"

datatype sigma_arg = Scalar real | Array "real list"

datatype fit4 = NaN4 | Fit4 real real real real
  \<comment> \<open>the returned 4-tuple: \<^verbatim>\<open>nan, nan, nan, nan\<close> or \<^verbatim>\<open>s, b, sigma_s, sigma_b\<close>\<close>

text \<open>
  \<^verbatim>\<open>
  def scaled_transit_fit(flux, sigma, model):
      N = len(flux)
      if N < 3:
          return np.nan, np.nan, np.nan, np.nan

      w = 1/sigma**2
      _m = np.sum(w*(model-1)**2)
      if _m == 0:
          return np.nan, np.nan, np.nan, np.nan
      s = np.sum(w*(model-1)*(flux-1))/_m
      chisq = np.sum(w*((flux-1)-s*(model-1))**2)
      b = np.sqrt(chisq/N)
      sigma_s = b/np.sqrt(_m)
      _t = 3*chisq/b**4 - N/b**2
      if _t > 0:
          sigma_b = 1/np.sqrt(_t)
      else:
          return np.nan, np.nan, np.nan, np.nan
      return s, b, sigma_s, sigma_b
  \<close>
  \<open>stf_fit\<close> is the function from \<^verbatim>\<open>_m = ...\<close> to \<^verbatim>\<open>chisq = ...\<close>, for weights that are
  finite, and \<open>stf_errors\<close> is the rest. The two square roots are taken of sums of squares
  with weights \<open>1 / sigma\<^sup>2\<close>, which are not negative (\<open>stf_sums_nonneg\<close> below).

  In exact arithmetic \<^verbatim>\<open>_t\<close> is \<open>2 N\<^sup>2 / chisq\<close>, positive whenever \<^verbatim>\<open>chisq\<close> is, and
  \<^verbatim>\<open>chisq\<close> is zero exactly when the scaled model fits the flux. The float computation
  differs on both counts: \<^verbatim>\<open>b**4\<close> can underflow or overflow, and rounded sums can leave a
  positive \<^verbatim>\<open>chisq\<close> at an exact fit. Which of the three outcomes of the last lines a call
  has (a tuple, the \<^verbatim>\<open>nan\<close> tuple, \<^verbatim>\<open>ZeroDivisionError\<close>) is therefore settled below
  only at inputs on which every float operation is exact.
\<close>

definition stf_errors :: "nat \<Rightarrow> real \<Rightarrow> real \<Rightarrow> real \<Rightarrow> error + fit4" where
  \<comment> \<open>the function from \<^verbatim>\<open>b = np.sqrt(chisq/N)\<close> on\<close>
  "stf_errors N m_sum s chisq =
     bind_err (fdiv chisq (real N)) (\<lambda>q.
     let b = sqrt q in
     bind_err (fdiv b (sqrt m_sum)) (\<lambda>sigma_s.
     bind_err (fdiv (3 * chisq) (b ^ 4)) (\<lambda>t1.
     bind_err (fdiv (real N) (b\<^sup>2)) (\<lambda>t2.
     let t = t1 - t2 in
     if t > 0 then bind_err (fdiv 1 (sqrt t)) (\<lambda>sigma_b. Inr (Fit4 s b sigma_s sigma_b))
     else Inr NaN4))))"

definition stf_fit :: "real list \<Rightarrow> real list \<Rightarrow> real list \<Rightarrow> error + fit4" where
  "stf_fit flux w model =
     bind_err (broadcast (*) w (map (\<lambda>m. (m - 1)\<^sup>2) model)) (\<lambda>wm2.
     let m_sum = sum_list wm2 in
     if m_sum = 0 then Inr NaN4
     else
       bind_err (broadcast (*) w (map (\<lambda>m. m - 1) model)) (\<lambda>wm.
       bind_err (broadcast (*) wm (map (\<lambda>f. f - 1) flux)) (\<lambda>wmf.
       bind_err (fdiv (sum_list wmf) m_sum) (\<lambda>s.
       bind_err (broadcast (-) (map (\<lambda>f. f - 1) flux) (map (\<lambda>m. s * (m - 1)) model)) (\<lambda>r.
       bind_err (broadcast (*) w (map (\<lambda>x. x\<^sup>2) r)) (\<lambda>wr2.
       let chisq = sum_list wr2 in
       stf_errors (length flux) m_sum s chisq))))))"

definition stf_infinite_weight :: "real list \<Rightarrow> nat \<Rightarrow> real list \<Rightarrow> error + fit4" where
  \<comment> \<open>An array \<^verbatim>\<open>sigma\<close> with a zero entry: array division does not raise, the weight is
      infinite, \<^verbatim>\<open>_m\<close> and the numerator of \<^verbatim>\<open>s\<close> are infinite or \<^verbatim>\<open>nan\<close>, hence
      \<^verbatim>\<open>_m == 0\<close> is false and \<^verbatim>\<open>s\<close>, \<^verbatim>\<open>chisq\<close>, \<^verbatim>\<open>b\<close> and \<^verbatim>\<open>_t\<close> are \<^verbatim>\<open>nan\<close>; no divisor
      is zero and \<^verbatim>\<open>_t > 0\<close> is false. Only the shapes can raise.\<close>
  "stf_infinite_weight flux n model =
     bind_err (broadcast (*) (replicate n 0) model) (\<lambda>wm.
     bind_err (broadcast (*) wm flux) (\<lambda>wmf. Inr NaN4))"

definition scaled_transit_fit :: "real list \<Rightarrow> sigma_arg \<Rightarrow> real list \<Rightarrow> error + fit4" where
  "scaled_transit_fit flux sigma model =
     (let N = length flux in
      if N < 3 then Inr NaN4
      else
        case sigma of
          Scalar sg \<Rightarrow> bind_err (fdiv 1 (sg\<^sup>2)) (\<lambda>w. stf_fit flux [w] model)
        | Array sgs \<Rightarrow>
            if 0 \<in> set sgs then stf_infinite_weight flux (length sgs) model
            else stf_fit flux (map (\<lambda>sg. 1 / sg\<^sup>2) sgs) model)"

text \<open>
  The quantities of the fit for data of one length \<open>N\<close>, as sums over the points: the
  weight of point \<open>i\<close>, \<^verbatim>\<open>_m\<close>, \<^verbatim>\<open>s\<close>, \<^verbatim>\<open>chisq\<close> and \<^verbatim>\<open>b\<close>.
\<close>

definition weight :: "sigma_arg \<Rightarrow> nat \<Rightarrow> real" where
  "weight sigma i = (case sigma of Scalar sg \<Rightarrow> 1 / sg\<^sup>2 | Array sgs \<Rightarrow> 1 / (sgs ! i)\<^sup>2)"

definition sigma_positive :: "sigma_arg \<Rightarrow> nat \<Rightarrow> bool" where
  \<comment> \<open>a positive scalar, or an array of \<open>N\<close> positive entries\<close>
  "sigma_positive sigma N =
     (case sigma of Scalar sg \<Rightarrow> 0 < sg
      | Array sgs \<Rightarrow> length sgs = N \<and> list_all (\<lambda>sg. 0 < sg) sgs)"

definition stf_m :: "sigma_arg \<Rightarrow> real list \<Rightarrow> nat \<Rightarrow> real" where
  "stf_m sigma model N = (\<Sum>i<N. weight sigma i * (model ! i - 1)\<^sup>2)"

definition stf_s :: "real list \<Rightarrow> sigma_arg \<Rightarrow> real list \<Rightarrow> nat \<Rightarrow> real" where
  "stf_s flux sigma model N =
     (\<Sum>i<N. weight sigma i * (model ! i - 1) * (flux ! i - 1)) / stf_m sigma model N"

definition stf_chisq :: "real list \<Rightarrow> sigma_arg \<Rightarrow> real list \<Rightarrow> nat \<Rightarrow> real" where
  "stf_chisq flux sigma model N =
     (\<Sum>i<N. weight sigma i
        * ((flux ! i - 1) - stf_s flux sigma model N * (model ! i - 1))\<^sup>2)"

definition stf_b :: "real list \<Rightarrow> sigma_arg \<Rightarrow> real list \<Rightarrow> nat \<Rightarrow> real" where
  "stf_b flux sigma model N = sqrt (stf_chisq flux sigma model N / real N)"

section \<open>The scaled-depth estimator with lower bounds on the errors\<close>

text \<open>
  \<^verbatim>\<open>minerr_transit_fit\<close> is not compiled: its array operations are NumPy's, which do not
  raise on a division by zero. A residual divided by \<^verbatim>\<open>sigma = 0\<close> is infinite, or
  \<^verbatim>\<open>nan\<close> when the residual is zero too. An infinite \<^verbatim>\<open>Rsq\<close> passes the test
  \<^verbatim>\<open>Rsq > eps\<close> and contributes \<^verbatim>\<open>log(0) = -inf\<close>; a \<^verbatim>\<open>nan\<close> fails it and keeps
  \<^verbatim>\<open>log(0.5)\<close>. So the negative log-likelihood is a real or \<open>+\<infinity>\<close>, written \<open>None\<close>.
  \<^verbatim>\<open>
      def _negloglike(s, flux, sigma, model):
          model =  1 + s*(model-1)
          Rsq = ((model-flux)/sigma)**2
          # In the limit Rsq -> 0, log-likelihood -> log(0.5)
          x = np.full_like(Rsq,np.log(0.5))
          _j = Rsq > np.finfo(0.0).eps
          x[_j] = np.log((1-np.exp(-0.5*Rsq[_j]))/Rsq[_j])
          return -np.sum(x)

      def _loglikediff(s, loglike_0, flux, sigma, model):
          return loglike_0 + _negloglike(s, flux, sigma, model)
  \<close>
\<close>

definition eps :: real where
  \<comment> \<open>\<^verbatim>\<open>np.finfo(0.0).eps\<close>\<close>
  "eps = 1 / 2 ^ 52"

definition loglike_term :: "real \<Rightarrow> real \<Rightarrow> real option" where
  \<comment> \<open>the entry of \<^verbatim>\<open>x\<close> for a residual \<^verbatim>\<open>model - flux\<close> and its \<^verbatim>\<open>sigma\<close>; \<open>None\<close> is \<open>-\<infinity>\<close>\<close>
  "loglike_term r sg =
     (if sg = 0 then (if r = 0 then Some (ln 0.5) else None)
      else
        let Rsq = (r / sg)\<^sup>2 in
        if Rsq > eps then Some (ln ((1 - exp (- 0.5 * Rsq)) / Rsq)) else Some (ln 0.5))"

fun neg_sum :: "real option list \<Rightarrow> real option" where
  \<comment> \<open>\<^verbatim>\<open>-np.sum(x)\<close>: \<open>+\<infinity>\<close> as soon as one entry is \<open>-\<infinity>\<close>\<close>
  "neg_sum [] = Some 0"
| "neg_sum (x # xs) =
     (case x of None \<Rightarrow> None | Some v \<Rightarrow> map_option (\<lambda>t. t - v) (neg_sum xs))"

definition negloglike ::
  "real \<Rightarrow> real list \<Rightarrow> sigma_arg \<Rightarrow> real list \<Rightarrow> error + real option" where
  "negloglike s flux sigma model =
     bind_err (broadcast (-) (map (\<lambda>m. 1 + s * (m - 1)) model) flux) (\<lambda>r.
     bind_err (broadcast loglike_term r (case sigma of Scalar sg \<Rightarrow> [sg] | Array sgs \<Rightarrow> sgs))
       (\<lambda>x. Inr (neg_sum x)))"

text \<open>
  The comparisons \<^verbatim>\<open>fb < fa\<close>, \<^verbatim>\<open>fc < fb\<close> and \<^verbatim>\<open>fb > fa\<close> that steer the bracketing are
  comparisons of float values of \<^verbatim>\<open>_negloglike\<close>. There \<^verbatim>\<open>1-np.exp(-0.5*Rsq)\<close> cancels for
  small \<^verbatim>\<open>Rsq\<close>, and two float values can be equal where the exact ones differ. The control
  flow of \<^verbatim>\<open>minerr_transit_fit\<close> is therefore defined for an arbitrary function in the
  place of \<^verbatim>\<open>_negloglike\<close>: whatever is proved of it for every such function holds for the
  rounded likelihood as for the exact one. \<open>minerr_transit_fit\<close> itself is the instance at
  \<open>negloglike\<close>.
\<close>

type_synonym likelihood = "real \<Rightarrow> real list \<Rightarrow> sigma_arg \<Rightarrow> real list \<Rightarrow> error + real option"

definition loglikediff ::
  "likelihood \<Rightarrow> real \<Rightarrow> real \<Rightarrow> real list \<Rightarrow> sigma_arg \<Rightarrow> real list \<Rightarrow> error + real option"
  where
  \<comment> \<open>\<^verbatim>\<open>_loglikediff\<close>, with the \<^verbatim>\<open>_negloglike\<close> it calls as first argument\<close>
  "loglikediff nll s loglike_0 flux sigma model =
     bind_err (nll s flux sigma model) (\<lambda>v. Inr (map_option (\<lambda>t. loglike_0 + t) v))"

definition nll_lt :: "real option \<Rightarrow> real option \<Rightarrow> bool" where
  \<comment> \<open>\<^verbatim>\<open>a < b\<close> on reals and \<open>+\<infinity>\<close>\<close>
  "nll_lt a b =
     (case a of None \<Rightarrow> False | Some x \<Rightarrow> (case b of None \<Rightarrow> True | Some y \<Rightarrow> x < y))"

definition np_min :: "real list \<Rightarrow> error + real" where
  \<comment> \<open>\<^verbatim>\<open>np.min\<close>, which raises on an empty array\<close>
  "np_min xs = (case xs of [] \<Rightarrow> Inl ValueError | x # xs' \<Rightarrow> Inr (fold min xs' x))"

datatype fit2 = NaN2 | Fit2 real real
  \<comment> \<open>the returned pair: \<^verbatim>\<open>nan, nan\<close> or \<^verbatim>\<open>s, sigma_s\<close>\<close>

text \<open>
  The three \<^verbatim>\<open>while\<close> loops. A loop that does not end is the value \<open>None\<close>; an exception
  raised in the loop ends it with \<open>Some (Inl e)\<close>.
  \<^verbatim>\<open>
          while fc < fb:
              s_max = 2*s_max
              fc = _negloglike(s_max, flux, sigma, model)
  \<close>
\<close>

partial_function (option) double_s_max ::
  "(real \<Rightarrow> error + real option) \<Rightarrow> real option \<Rightarrow> real \<Rightarrow> real option \<Rightarrow> (error + real) option"
  where
  "double_s_max nll fb s_max fc =
     (if nll_lt fc fb then
        (case nll (2 * s_max) of Inl e \<Rightarrow> Some (Inl e)
         | Inr fc' \<Rightarrow> double_s_max nll fb (2 * s_max) fc')
      else Some (Inr s_max))"

text \<open>
  \<^verbatim>\<open>
          while fb > fa:
              if s_mid < 2**-16:
                  return 0,0
              s_mid = 0.5*s_mid
              fb = _negloglike(s_mid, flux, sigma, model)
  \<close>
  The result is the final \<^verbatim>\<open>s_mid\<close>, or \<open>None\<close> for the \<^verbatim>\<open>return 0,0\<close> inside the loop.
\<close>

partial_function (option) halve_s_mid ::
  "(real \<Rightarrow> error + real option) \<Rightarrow> real option \<Rightarrow> real \<Rightarrow> real option
     \<Rightarrow> (error + real option) option"
  where
  "halve_s_mid nll fa s_mid fb =
     (if nll_lt fa fb then
        (if s_mid < 1 / 2 ^ 16 then Some (Inr None)
         else
           (case nll (0.5 * s_mid) of Inl e \<Rightarrow> Some (Inl e)
            | Inr fb' \<Rightarrow> halve_s_mid nll fa (0.5 * s_mid) fb'))
      else Some (Inr (Some s_mid)))"

text \<open>
  \<^verbatim>\<open>
      while f_hi < 0:
          s_hi = 2*s_hi
          f_hi = _loglikediff(s_hi, loglike_0, flux, sigma, model)
  \<close>
\<close>

partial_function (option) double_s_hi ::
  "(real \<Rightarrow> error + real option) \<Rightarrow> real \<Rightarrow> real option \<Rightarrow> (error + real) option"
  where
  "double_s_hi lld s_hi f_hi =
     (if nll_lt f_hi (Some 0) then
        (case lld (2 * s_hi) of Inl e \<Rightarrow> Some (Inl e)
         | Inr f_hi' \<Rightarrow> double_s_hi lld (2 * s_hi) f_hi')
      else Some (Inr s_hi))"

definition bind_loop ::
  "(error + 'a) option \<Rightarrow> ('a \<Rightarrow> (error + 'b) option) \<Rightarrow> (error + 'b) option" where
  \<comment> \<open>sequencing of computations that may raise or not end\<close>
  "bind_loop r f =
     (case r of None \<Rightarrow> None | Some (Inl e) \<Rightarrow> Some (Inl e) | Some (Inr x) \<Rightarrow> f x)"

datatype bracket = NoFit | Bracket real real
  \<comment> \<open>the outcome of the bracketing step: \<^verbatim>\<open>return 0,0\<close>, or \<^verbatim>\<open>s_mid\<close> and \<^verbatim>\<open>s_max\<close>\<close>

text \<open>
  \<^verbatim>\<open>
  def minerr_transit_fit(flux, sigma, model):
      N = len(flux)
      if N < 3:
          return np.nan, np.nan
      ...
      if np.min(model) == 1:
          return 0,0
      # Bracket the minimum of _negloglike
      s_min = 0
      fa = _negloglike(s_min, flux, sigma, model)
      s_mid = 1
      fb = _negloglike(s_mid, flux, sigma, model)
      if fb < fa:
          s_max = 2
          fc = _negloglike(s_max, flux, sigma, model)
          while fc < fb:
              ...
      else:
          s_max = s_mid
          fc = fb
          s_mid = 0.5
          fb = _negloglike(s_mid, flux, sigma, model)
          while fb > fa:
              ...
      s_opt, _f, _, _ = brent(_negloglike, args=(flux, sigma, model),
                         brack=(s_min,s_mid,s_max), full_output=True)
      loglike_0 = -_f -0.5
      s_hi = s_max
      f_hi = _loglikediff(s_hi, loglike_0, flux, sigma, model)
      while f_hi < 0:
          ...
      s_hi = brentq(_loglikediff, s_opt, s_hi,
                   args = (loglike_0, flux, sigma, model))
      s_err = s_hi - s_opt
      return s_opt, s_err
  \<close>
  \<^verbatim>\<open>brent\<close> and \<^verbatim>\<open>brentq\<close> are SciPy's: they are parameters of the model, a minimiser
  that returns the optimum and the function value there from a function and a bracket, and
  a root finder that returns a root from a function and an interval; either may raise.
\<close>

definition bracket_minimum ::
  "(real \<Rightarrow> error + real option) \<Rightarrow> (error + bracket) option" where
  \<comment> \<open>from \<^verbatim>\<open>s_min = 0\<close> to the end of the \<^verbatim>\<open>if fb < fa: ... else: ...\<close>\<close>
  "bracket_minimum nll =
     bind_loop (Some (nll 0)) (\<lambda>fa.
     bind_loop (Some (nll 1)) (\<lambda>fb.
     if nll_lt fb fa then
       bind_loop (Some (nll 2)) (\<lambda>fc.
       bind_loop (double_s_max nll fb 2 fc) (\<lambda>s_max. Some (Inr (Bracket 1 s_max))))
     else
       bind_loop (Some (nll 0.5)) (\<lambda>fb'.
       bind_loop (halve_s_mid nll fa 0.5 fb') (\<lambda>r.
       Some (Inr (case r of None \<Rightarrow> NoFit | Some s_mid \<Rightarrow> Bracket s_mid 1))))))"

definition optimise_scale ::
  "likelihood
     \<Rightarrow> ((real \<Rightarrow> error + real option) \<Rightarrow> real \<Rightarrow> real \<Rightarrow> real \<Rightarrow> error + real \<times> real)
     \<Rightarrow> ((real \<Rightarrow> error + real option) \<Rightarrow> real \<Rightarrow> real \<Rightarrow> error + real)
     \<Rightarrow> real list \<Rightarrow> sigma_arg \<Rightarrow> real list \<Rightarrow> real \<Rightarrow> real \<Rightarrow> (error + fit2) option" where
  \<comment> \<open>from the call of \<^verbatim>\<open>brent\<close> with \<^verbatim>\<open>brack=(s_min,s_mid,s_max)\<close>, \<^verbatim>\<open>s_min = 0\<close>, to the end\<close>
  "optimise_scale nll brent brentq flux sigma model s_mid s_max =
     bind_loop (Some (brent (\<lambda>s. nll s flux sigma model) 0 s_mid s_max)) (\<lambda>(s_opt, f_min).
     let loglike_0 = - f_min - 0.5 in
     bind_loop (Some (loglikediff nll s_max loglike_0 flux sigma model)) (\<lambda>f_hi.
     bind_loop (double_s_hi (\<lambda>s. loglikediff nll s loglike_0 flux sigma model) s_max f_hi)
       (\<lambda>s_hi.
     bind_loop (Some (brentq (\<lambda>s. loglikediff nll s loglike_0 flux sigma model) s_opt s_hi))
       (\<lambda>s_hi'.
     Some (Inr (Fit2 s_opt (s_hi' - s_opt)))))))"

definition minerr_transit_fit_with ::
  "likelihood
     \<Rightarrow> ((real \<Rightarrow> error + real option) \<Rightarrow> real \<Rightarrow> real \<Rightarrow> real \<Rightarrow> error + real \<times> real)
     \<Rightarrow> ((real \<Rightarrow> error + real option) \<Rightarrow> real \<Rightarrow> real \<Rightarrow> error + real)
     \<Rightarrow> real list \<Rightarrow> sigma_arg \<Rightarrow> real list \<Rightarrow> (error + fit2) option" where
  \<comment> \<open>the body of \<^verbatim>\<open>minerr_transit_fit\<close>, with \<open>nll\<close> for \<^verbatim>\<open>_negloglike\<close>\<close>
  "minerr_transit_fit_with nll brent brentq flux sigma model =
     (let N = length flux in
      if N < 3 then Some (Inr NaN2)
      else
        bind_loop (Some (np_min model)) (\<lambda>model_min.
        if model_min = 1 then Some (Inr (Fit2 0 0))
        else
          bind_loop (bracket_minimum (\<lambda>s. nll s flux sigma model)) (\<lambda>br.
          case br of
            NoFit \<Rightarrow> Some (Inr (Fit2 0 0))
          | Bracket s_mid s_max \<Rightarrow>
              optimise_scale nll brent brentq flux sigma model s_mid s_max)))"

definition minerr_transit_fit ::
  "((real \<Rightarrow> error + real option) \<Rightarrow> real \<Rightarrow> real \<Rightarrow> real \<Rightarrow> error + real \<times> real)
     \<Rightarrow> ((real \<Rightarrow> error + real option) \<Rightarrow> real \<Rightarrow> real \<Rightarrow> error + real)
     \<Rightarrow> real list \<Rightarrow> sigma_arg \<Rightarrow> real list \<Rightarrow> (error + fit2) option" where
  "minerr_transit_fit brent brentq flux sigma model =
     minerr_transit_fit_with negloglike brent brentq flux sigma model"

section \<open>Closed forms of the kernel loops\<close>

text \<open>
  The value each kernel leaves in an entry, as a function of the separation alone. The
  loops compute these whenever no division raises (\<open>ueclipse_map\<close>, \<open>qpower2_map\<close> below).
\<close>

definition ueclipse_entry :: "real \<Rightarrow> real \<Rightarrow> real" where
  "ueclipse_entry k zi =
     (let zt = \<bar>zi\<bar> in
      if zt \<le> 1 - k then 0
      else if \<bar>zt - 1\<bar> < k then
        1 - (k\<^sup>2 * arccos (min (max (- 1) ((zt\<^sup>2 + k\<^sup>2 - 1) / (2 * zt * k))) 1)
             + arccos (min (max (- 1) ((zt\<^sup>2 + 1 - k\<^sup>2) / (2 * zt))) 1)
             - 0.5 * sqrt (max 0 ((1 + k - zt) * (zt + k - 1) * (zt - k + 1) * (zt + k + 1))))
            / (pi * k\<^sup>2)
      else 1)"

definition qpower2_entry :: "real \<Rightarrow> real \<Rightarrow> real \<Rightarrow> real \<Rightarrow> real \<Rightarrow> real \<Rightarrow> real option" where
  "qpower2_entry I_0 g k c a zi =
     (let zt = \<bar>zi\<bar> in
      if zt \<le> 1 - k then qpower2_full I_0 g k c a zt
      else if \<bar>zt - 1\<bar> < k then
        (let d = (zt\<^sup>2 - k\<^sup>2 + 1) / (2 * zt)
         in qpower2_partial I_0 g k c a zt d ((zt - d) / k))
      else Some 1)"


section \<open>The element loop\<close>

lemma for_enumerate_cong:
  "(\<And>j f. j \<in> set js \<Longrightarrow> body j f = body' j f) \<Longrightarrow>
   for_enumerate body js f = for_enumerate body' js f"
  by (induction js arbitrary: f) (auto split: sum.splits)

lemma for_enumerate_update:
  assumes "\<And>j f. j \<in> set js \<Longrightarrow> body j f = Inr (f[j := h j (f ! j)])"
    and "distinct js"
  shows "for_enumerate body js f =
         Inr (map (\<lambda>i. if i \<in> set js then h i (f ! i) else f ! i) [0..<length f])"
  using assms
proof (induction js arbitrary: f)
  case Nil
  then show ?case by (simp add: map_nth)
next
  case (Cons j js)
  have b: "body j f = Inr (f[j := h j (f ! j)])" using Cons.prems(1) by simp
  have ih: "for_enumerate body js (f[j := h j (f ! j)]) =
    Inr (map (\<lambda>i. if i \<in> set js then h i (f[j := h j (f ! j)] ! i) else f[j := h j (f ! j)] ! i)
          [0..<length (f[j := h j (f ! j)])])"
    using Cons.IH [of "f[j := h j (f ! j)]"] Cons.prems by simp
  have nj: "j \<notin> set js" using Cons.prems(2) by simp
  have "(if i \<in> set js then h i (f[j := h j (f ! j)] ! i) else f[j := h j (f ! j)] ! i) =
        (if i \<in> set (j # js) then h i (f ! i) else f ! i)" if "i < length f" for i
  proof (cases "i = j")
    case True
    then show ?thesis using nj that by simp
  next
    case False
    then show ?thesis by simp
  qed
  then show ?case
    by (simp add: b ih)
qed

section \<open>Properties of the flux kernels\<close>

lemma ueclipse_body_entry:
  assumes "k \<le> 1"
  shows "ueclipse_body k z i fl = Inr (fl[i := (if \<bar>z ! i\<bar> \<le> 1 - k \<or> \<bar>\<bar>z ! i\<bar> - 1\<bar> < k then ueclipse_entry k (z ! i) else fl ! i)])"
  using assms
  by (auto simp add: ueclipse_body_def ueclipse_entry_def fdiv_def Let_def)


lemma ueclipse_map:
  assumes "k \<le> 1"
  shows "ueclipse z k = Inr (map (ueclipse_entry k) z)"
proof -
  let ?h = "\<lambda>i old. if \<bar>z ! i\<bar> \<le> 1 - k \<or> \<bar>\<bar>z ! i\<bar> - 1\<bar> < k then ueclipse_entry k (z ! i) else old"
  have "for_enumerate (ueclipse_body k z) [0..<length z] (replicate (length z) 1) =
        Inr (map (\<lambda>i. if i \<in> set [0..<length z] then ?h i (replicate (length z) 1 ! i)
                        else replicate (length z) 1 ! i) [0..<length (replicate (length z) (1::real))])"
    by (rule for_enumerate_update) (simp_all add: ueclipse_body_entry [OF assms])
  also have "\<dots> = Inr (map (\<lambda>i. ueclipse_entry k (z ! i)) [0..<length z])"
    by (auto simp add: ueclipse_entry_def Let_def)
  also have "map (\<lambda>i. ueclipse_entry k (z ! i)) [0..<length z] = map (ueclipse_entry k) z"
    by (rule nth_equalityI) simp_all
  finally show ?thesis using assms by (simp add: ueclipse_def)
qed

lemma qpower2_body_entry:
  assumes "k \<le> 1"
  shows "qpower2_body I_0 g k c a z i f =
    Inr (f[i := (if \<bar>z ! i\<bar> \<le> 1 - k \<or> \<bar>\<bar>z ! i\<bar> - 1\<bar> < k then qpower2_entry I_0 g k c a (z ! i) else f ! i)])"
  using assms
  by (auto simp add: qpower2_body_def qpower2_entry_def fdiv_def Let_def)

lemma qpower2_map:
  assumes "k \<le> 1" and "a - c * a + 2 \<noteq> 0"
  shows "qpower2 z k c a =
         Inr (map (qpower2_entry ((a + 2) / (pi * (a - c * a + 2))) (0.5 * a) k c a) z)"
proof -
  define I_0 where "I_0 = (a + 2) / (pi * (a - c * a + 2))"
  define g where "g = 0.5 * a"
  let ?h = "\<lambda>i old. if \<bar>z ! i\<bar> \<le> 1 - k \<or> \<bar>\<bar>z ! i\<bar> - 1\<bar> < k then qpower2_entry I_0 g k c a (z ! i) else old"
  have "for_enumerate (qpower2_body I_0 g k c a z) [0..<length z] (replicate (length z) (Some 1)) =
        Inr (map (\<lambda>i. if i \<in> set [0..<length z] then ?h i (replicate (length z) (Some 1) ! i)
                        else replicate (length z) (Some 1) ! i) [0..<length (replicate (length z) (Some (1::real)))])"
    by (rule for_enumerate_update) (simp_all add: qpower2_body_entry [OF assms(1)])
  also have "\<dots> = Inr (map (\<lambda>i. qpower2_entry I_0 g k c a (z ! i)) [0..<length z])"
    by (auto simp add: qpower2_entry_def Let_def)
  also have "map (\<lambda>i. qpower2_entry I_0 g k c a (z ! i)) [0..<length z] =
             map (qpower2_entry I_0 g k c a) z"
    by (rule nth_equalityI) simp_all
  finally show ?thesis using assms(2) by (simp add: qpower2_def fdiv_def I_0_def g_def)
qed

lemma qpower2_singular:
  "a - c * a + 2 = 0 \<Longrightarrow> qpower2 z k c a = Inl ZeroDivisionError"
  by (simp add: qpower2_def fdiv_def)

lemma ueclipse_body_neg: "i < length z \<Longrightarrow> ueclipse_body k (map uminus z) i fl = ueclipse_body k z i fl"
  by (simp add: ueclipse_body_def)

lemma qpower2_body_neg:
  "i < length z \<Longrightarrow> qpower2_body I_0 g k c a (map uminus z) i f = qpower2_body I_0 g k c a z i f"
  by (simp add: qpower2_body_def)

text \<open>
  Claim C10. Both kernels are sign-symmetric in the separation: negating every entry of
  \<open>z\<close> changes neither the outcome of \<open>qpower2\<close> nor that of \<open>ueclipse\<close>, for all
  parameters, errors included, because each entry is read through its absolute value only.
\<close>

theorem kernels_sign_symmetric:
  "qpower2 (map uminus z) k c a = qpower2 z k c a \<and> ueclipse (map uminus z) k = ueclipse z k"
proof
  have "for_enumerate (qpower2_body I_0 g k c a (map uminus z)) [0..<length z] f =
        for_enumerate (qpower2_body I_0 g k c a z) [0..<length z] f" for I_0 g f
    by (rule for_enumerate_cong) (simp add: qpower2_body_neg)
  then show "qpower2 (map uminus z) k c a = qpower2 z k c a"
    by (simp add: qpower2_def split: sum.splits)
  have "for_enumerate (ueclipse_body k (map uminus z)) [0..<length z] f =
        for_enumerate (ueclipse_body k z) [0..<length z] f" for f
    by (rule for_enumerate_cong) (simp add: ueclipse_body_neg)
  then show "ueclipse (map uminus z) k = ueclipse z k"
    by (simp add: ueclipse_def)
qed

text \<open>
  Claim C7. For every separation array and every \<open>k > 1\<close>, \<open>ueclipse\<close> raises
  \<open>ValueError\<close>, whatever the array holds: the check precedes the allocation of the output
  and the loop. For \<open>k \<le> 1\<close> the check does not fire, and nothing else raises either: the
  call returns an array as long as \<open>z\<close>.
\<close>

theorem ueclipse_rejects_k_above_one:
  "(1 < k \<longrightarrow> ueclipse z k = Inl ValueError) \<and>
   (k \<le> 1 \<longrightarrow> (\<exists>fl. ueclipse z k = Inr fl \<and> length fl = length z))"
  by (simp add: ueclipse_map) (simp add: ueclipse_def)

theorem ueclipse_rejects_k_above_one_witness:
  "(1 < (2::real) \<and> ueclipse [0, 3] 2 = Inl ValueError) \<and>
   ((1/2::real) \<le> 1 \<and> (\<exists>fl. ueclipse [0, 3] (1/2) = Inr fl \<and> length fl = length [0, 3 :: real]))"
  using ueclipse_rejects_k_above_one [of 2 "[0, 3]"] ueclipse_rejects_k_above_one [of "1/2" "[0, 3]"]
  by simp

text \<open>
  Claim C2, as stated: \<open>ueclipse\<close> raises an error for every negative \<open>k\<close>. The code
  returns an array at \<open>k = -1\<close>.
\<close>

theorem ueclipse_negative_k_counterexample:
  "ueclipse [0, 3] (- 1) = Inr [0, 1]"
  by (simp add: ueclipse_def ueclipse_body_def Let_def)

text \<open>
  Claim C2, amended. For every separation array and every negative \<open>k\<close>, \<open>ueclipse\<close>
  raises no error: the only validation is \<open>k > 1\<close>. It returns an array as long as \<open>z\<close>
  whose entries are \<open>0\<close> or \<open>1\<close> (the partial-overlap branch needs \<open>\<bar>\<bar>z\<^sub>i\<bar> - 1\<bar> < k\<close>, which
  no negative \<open>k\<close> satisfies): \<open>0\<close> wherever \<open>\<bar>z\<^sub>i\<bar> \<le> 1 - k\<close>, and \<open>1\<close> wherever \<open>\<bar>z\<^sub>i\<bar>\<close>
  exceeds \<open>1 - k\<close> by more than one part in \<open>2\<^sup>5\<^sup>2\<close>, the margin within which the rounding
  of \<^verbatim>\<open>1-k\<close> decides.
\<close>

theorem ueclipse_negative_k_returns:
  assumes "k < 0"
  shows "\<exists>fl. ueclipse z k = Inr fl \<and> length fl = length z \<and>
              (\<forall>i<length z. (\<bar>z ! i\<bar> \<le> 1 - k \<longrightarrow> fl ! i = 0) \<and>
                              ((1 - k) * (1 + 1 / 2 ^ 52) < \<bar>z ! i\<bar> \<longrightarrow> fl ! i = 1) \<and>
                              (fl ! i = 0 \<or> fl ! i = 1))"
proof -
  have "ueclipse_entry k zi = (if \<bar>zi\<bar> \<le> 1 - k then 0 else 1)" for zi
    using assms by (simp add: ueclipse_entry_def Let_def)
  then have r: "ueclipse z k = Inr (map (\<lambda>zi. if \<bar>zi\<bar> \<le> 1 - k then 0 else 1) z)"
    using assms by (simp add: ueclipse_map)
  have "(1 - k) * 1 \<le> (1 - k) * (1 + 1 / 2 ^ 52)"
    using assms by (intro mult_left_mono) simp_all
  then have "1 - k < x" if "(1 - k) * (1 + 1 / 2 ^ 52) < x" for x
    using that by simp
  then have "\<forall>i<length z. (1 - k) * (1 + 1 / 2 ^ 52) < \<bar>z ! i\<bar> \<longrightarrow> \<not> \<bar>z ! i\<bar> \<le> 1 - k"
    by (simp add: not_le)
  then show ?thesis unfolding r by simp
qed

theorem ueclipse_negative_k_returns_witness:
  "(- 2 :: real) < 0 \<and>
   (\<exists>fl. ueclipse [1, - 4, 5/2] (- 2) = Inr fl \<and> length fl = length [1, - 4, 5/2 :: real] \<and>
         fl ! 0 = 0 \<and> fl ! 1 = 1 \<and> fl ! 2 = 0)"
proof -
  have k: "(- 2 :: real) < 0" by simp
  obtain fl where fl: "ueclipse [1, - 4, 5/2] (- 2) = Inr fl"
    "length fl = length [1, - 4, 5/2 :: real]"
    "\<forall>i<length [1, - 4, 5/2 :: real].
       (\<bar>[1, - 4, 5/2 :: real] ! i\<bar> \<le> 1 - (- 2) \<longrightarrow> fl ! i = 0) \<and>
       ((1 - (- 2)) * (1 + 1 / 2 ^ 52) < \<bar>[1, - 4, 5/2 :: real] ! i\<bar> \<longrightarrow> fl ! i = 1) \<and>
       (fl ! i = 0 \<or> fl ! i = 1)"
    using ueclipse_negative_k_returns [OF k, of "[1, - 4, 5/2]"] by blast
  have "fl ! 0 = 0" using fl(3) [rule_format, of 0] by simp
  moreover have "fl ! 1 = 1" using fl(3) [rule_format, of 1] by simp
  moreover have "fl ! 2 = 0" using fl(3) [rule_format, of 2] by simp
  ultimately show ?thesis using k fl(1,2) by blast
qed

text \<open>
  Claim C9, as stated: for any \<open>c\<close> and \<open>a\<close>, entries with \<open>\<bar>z\<^sub>i\<bar> > 1 + k\<close> yield
  exactly \<open>1\<close> in \<open>qpower2\<close>. At \<open>c = 2\<close>, \<open>a = 2\<close> the denominator of \<open>I_0\<close> is zero and the
  call raises before the loop, so no entry is produced.
\<close>

theorem qpower2_singular_counterexample:
  "qpower2 [9999] (1/2) 2 2 = Inl ZeroDivisionError"
  by (simp add: qpower2_def fdiv_def)

text \<open>
  Claim C9, amended. For every \<open>k\<close> in \<open>(0, 1)\<close>, every entry \<open>z\<^sub>i\<close> with
  \<open>\<bar>z\<^sub>i\<bar> > 1 + k\<close>, and in particular the sentinel \<open>z\<^sub>i = 9999\<close>, yields output exactly
  \<open>1\<close> in \<open>ueclipse z k\<close>, which returns an array as long as \<open>z\<close>, and in every call
  \<open>qpower2 z k c a\<close> that returns: entry \<open>i\<close> is the \<open>1\<close> the array was initialised with.
  Whether \<open>qpower2\<close> returns is decided before the loop, by the float value of
  \<^verbatim>\<open>a-c*a+2\<close>.
\<close>

theorem no_overlap_flux_is_one:
  assumes "0 < k" and "k < 1" and "i < length z" and "1 + k < \<bar>z ! i\<bar> \<or> z ! i = 9999"
  shows "(\<exists>fl. ueclipse z k = Inr fl \<and> length fl = length z \<and> fl ! i = 1) \<and>
         (\<forall>f. qpower2 z k c a = Inr f \<longrightarrow> length f = length z \<and> f ! i = Some 1)"
proof -
  have far: "1 + k < \<bar>z ! i\<bar>" using assms by auto
  have "ueclipse_entry k (z ! i) = 1"
    using far assms(1) by (simp add: ueclipse_entry_def Let_def)
  then have u: "\<exists>fl. ueclipse z k = Inr fl \<and> length fl = length z \<and> fl ! i = 1"
    using assms(2,3) by (simp add: ueclipse_map)
  have e: "qpower2_entry I_0 g k c a (z ! i) = Some 1" for I_0 g
    using far assms(1) by (simp add: qpower2_entry_def Let_def)
  have "length f = length z \<and> f ! i = Some 1" if f: "qpower2 z k c a = Inr f" for f
  proof (cases "a - c * a + 2 = 0")
    case True
    then show ?thesis using f by (simp add: qpower2_singular)
  next
    case False
    then show ?thesis using f e assms(2,3) by (auto simp add: qpower2_map)
  qed
  with u show ?thesis by blast
qed

theorem no_overlap_flux_is_one_witness:
  "(0::real) < 1/2 \<and> (1/2::real) < 1 \<and> (1::nat) < length [0, 9999, 2 :: real] \<and>
   (1 + 1/2 < \<bar>[0, 9999, 2 :: real] ! 1\<bar> \<or> [0, 9999, 2 :: real] ! 1 = 9999) \<and>
   (\<exists>fl. ueclipse [0, 9999, 2] (1/2) = Inr fl \<and> length fl = length [0, 9999, 2 :: real] \<and> fl ! 1 = 1) \<and>
   (\<exists>f. qpower2 [0, 9999, 2] (1/2) (1/2) (3/4) = Inr f \<and> length f = length [0, 9999, 2 :: real] \<and>
        f ! 1 = Some 1)"
proof -
  have h: "(0::real) < 1/2" "(1/2::real) < 1" "(1::nat) < length [0, 9999, 2 :: real]"
    "1 + 1/2 < \<bar>[0, 9999, 2 :: real] ! 1\<bar> \<or> [0, 9999, 2 :: real] ! 1 = 9999"
    by simp_all
  have "(3/4::real) - 1/2 * (3/4) + 2 \<noteq> 0" by simp
  then obtain f where f: "qpower2 [0, 9999, 2] (1/2) (1/2) (3/4) = Inr f"
    using qpower2_map [of "1/2" "3/4" "1/2" "[0, 9999, 2]"] by simp
  from no_overlap_flux_is_one [OF h, of "1/2" "3/4"] f h show ?thesis
    by blast
qed

section \<open>Properties of the scaled-depth estimator\<close>

lemma bind_err_simps [simp]:
  "bind_err (Inl e) f = Inl e" "bind_err (Inr x) f = f x"
  by (simp_all add: bind_err_def)

lemma broadcast_same:
  "length xs = length ys \<Longrightarrow> broadcast f xs ys = Inr (map2 f xs ys)"
  by (simp add: broadcast_def)

lemma broadcast_scalar:
  "broadcast f [x] ys = Inr (map (f x) ys)"
  by (cases ys) (auto simp add: broadcast_def)

lemma sum_list_eq_sum:
  assumes "length xs = n" and "\<And>i. i < n \<Longrightarrow> xs ! i = g i"
  shows "sum_list xs = (\<Sum>i<n. g i)"
proof -
  have "sum_list xs = (\<Sum>i<n. xs ! i)"
    using assms(1) by (simp add: sum_list_sum_nth atLeast0LessThan)
  also have "\<dots> = (\<Sum>i<n. g i)"
    by (rule sum.cong) (simp_all add: assms(2))
  finally show ?thesis .
qed

lemma stf_fit_sums:
  assumes len: "length model = length flux"
    and w: "length w = length flux \<and> (\<forall>i<length flux. w ! i = wi i) \<or> w = [w0] \<and> (\<forall>i. wi i = w0)"
  defines "N \<equiv> length flux"
  defines "M \<equiv> (\<Sum>i<N. wi i * (model ! i - 1)\<^sup>2)"
  defines "s \<equiv> (\<Sum>i<N. wi i * (model ! i - 1) * (flux ! i - 1)) / M"
  defines "chisq \<equiv> (\<Sum>i<N. wi i * ((flux ! i - 1) - s * (model ! i - 1))\<^sup>2)"
  shows "stf_fit flux w model = (if M = 0 then Inr NaN4 else stf_errors N M s chisq)"
proof -
  have bw: "\<exists>zs. broadcast (*) w ys = Inr zs \<and> length zs = N \<and> (\<forall>i<N. zs ! i = wi i * ys ! i)"
    if "length ys = N" for ys
    using w
  proof
    assume "length w = length flux \<and> (\<forall>i<length flux. w ! i = wi i)"
    then show ?thesis using that by (simp add: broadcast_same N_def)
  next
    assume "w = [w0] \<and> (\<forall>i. wi i = w0)"
    then show ?thesis using that by (simp add: broadcast_scalar)
  qed
  obtain wm2 where wm2: "broadcast (*) w (map (\<lambda>m. (m - 1)\<^sup>2) model) = Inr wm2"
    "length wm2 = N" "\<forall>i<N. wm2 ! i = wi i * map (\<lambda>m. (m - 1)\<^sup>2) model ! i"
    using bw [of "map (\<lambda>m. (m - 1)\<^sup>2) model"] len by (auto simp add: N_def)
  have M: "sum_list wm2 = M"
    unfolding M_def using wm2(2,3) len by (intro sum_list_eq_sum) (simp_all add: N_def)
  obtain wm where wm: "broadcast (*) w (map (\<lambda>m. m - 1) model) = Inr wm"
    "length wm = N" "\<forall>i<N. wm ! i = wi i * map (\<lambda>m. m - 1) model ! i"
    using bw [of "map (\<lambda>m. m - 1) model"] len by (auto simp add: N_def)
  have wmf: "broadcast (*) wm (map (\<lambda>f. f - 1) flux) = Inr (map2 (*) wm (map (\<lambda>f. f - 1) flux))"
    using wm(2) by (simp add: broadcast_same N_def)
  have num: "sum_list (map2 (*) wm (map (\<lambda>f. f - 1) flux)) =
             (\<Sum>i<N. wi i * (model ! i - 1) * (flux ! i - 1))"
    using wm(2,3) len by (intro sum_list_eq_sum) (simp_all add: N_def)
  have r: "broadcast (-) (map (\<lambda>f. f - 1) flux) (map (\<lambda>m. s * (m - 1)) model) =
           Inr (map2 (-) (map (\<lambda>f. f - 1) flux) (map (\<lambda>m. s * (m - 1)) model))"
    using len by (simp add: broadcast_same)
  let ?r = "map2 (-) (map (\<lambda>f. f - 1) flux) (map (\<lambda>m. s * (m - 1)) model)"
  obtain wr2 where wr2: "broadcast (*) w (map (\<lambda>x. x\<^sup>2) ?r) = Inr wr2"
    "length wr2 = N" "\<forall>i<N. wr2 ! i = wi i * map (\<lambda>x. x\<^sup>2) ?r ! i"
    using bw [of "map (\<lambda>x. x\<^sup>2) ?r"] len by (auto simp add: N_def)
  have chisq: "sum_list wr2 = chisq"
    unfolding chisq_def using wr2(2,3) len by (intro sum_list_eq_sum) (simp_all add: N_def)
  show ?thesis
  proof (cases "M = 0")
    case True
    then show ?thesis by (simp add: stf_fit_def wm2(1) M)
  next
    case False
    have sdiv: "fdiv (\<Sum>i<N. wi i * (model ! i - 1) * (flux ! i - 1)) M = Inr s"
      using False by (simp add: fdiv_def s_def)
    have N: "length flux = N" by (simp add: N_def)
    show ?thesis
      by (simp only: stf_fit_def wm2(1) M wm(1) wmf num sdiv r wr2(1) chisq N bind_err_simps
            Let_def False if_False)
  qed
qed


lemma weight_pos: "sigma_positive sigma N \<Longrightarrow> i < N \<Longrightarrow> 0 < weight sigma i"
  by (cases sigma) (auto simp add: sigma_positive_def weight_def list_all_length)

lemma stf_sums_nonneg:
  assumes "sigma_positive sigma N"
  shows "0 \<le> stf_m sigma model N" and "0 \<le> stf_chisq flux sigma model N"
  unfolding stf_m_def stf_chisq_def
  by (rule sum_nonneg, simp add: less_imp_le weight_pos [OF assms])+

lemma scaled_transit_fit_sums:
  assumes "3 \<le> length flux" and "length model = length flux"
    and "sigma_positive sigma (length flux)"
  shows "scaled_transit_fit flux sigma model =
         (if stf_m sigma model (length flux) = 0 then Inr NaN4
          else stf_errors (length flux) (stf_m sigma model (length flux))
                 (stf_s flux sigma model (length flux)) (stf_chisq flux sigma model (length flux)))"
proof (cases sigma)
  case (Scalar sg)
  then have sg: "0 < sg" using assms(3) by (simp add: sigma_positive_def)
  have "stf_fit flux [1 / sg\<^sup>2] model =
        (if stf_m sigma model (length flux) = 0 then Inr NaN4
         else stf_errors (length flux) (stf_m sigma model (length flux))
                (stf_s flux sigma model (length flux)) (stf_chisq flux sigma model (length flux)))"
    unfolding stf_m_def stf_s_def stf_chisq_def
    by (rule stf_fit_sums [where ?w0.0 = "1 / sg\<^sup>2"]) (simp_all add: assms(2) Scalar weight_def)
  then show ?thesis
    using assms(1) sg by (simp add: scaled_transit_fit_def Scalar fdiv_def)
next
  case (Array sgs)
  then have sgs: "length sgs = length flux" "0 \<notin> set sgs"
    using assms(3) by (auto simp add: sigma_positive_def list_all_iff)
  have "stf_fit flux (map (\<lambda>sg. 1 / sg\<^sup>2) sgs) model =
        (if stf_m sigma model (length flux) = 0 then Inr NaN4
         else stf_errors (length flux) (stf_m sigma model (length flux))
                (stf_s flux sigma model (length flux)) (stf_chisq flux sigma model (length flux)))"
    unfolding stf_m_def stf_s_def stf_chisq_def
    by (rule stf_fit_sums [where ?w0.0 = 0]) (simp_all add: assms(2) Array weight_def sgs(1))
  then show ?thesis
    using assms(1) sgs(2) by (simp add: scaled_transit_fit_def Array)
qed

lemma stf_errors_exact_fit:
  "0 < N \<Longrightarrow> M \<noteq> 0 \<Longrightarrow> stf_errors N M s 0 = Inl ZeroDivisionError"
  by (simp add: stf_errors_def fdiv_def Let_def)

lemma stf_curvature:
  fixes chisq :: real
  assumes "0 < chisq" and "0 < N"
  shows "3 * chisq / sqrt (chisq / real N) ^ 4 - real N / (sqrt (chisq / real N))\<^sup>2 =
         2 * (real N)\<^sup>2 / chisq"
proof -
  have q: "0 < chisq / real N" using assms by simp
  have b2: "(sqrt (chisq / real N))\<^sup>2 = chisq / real N" using q by simp
  have b4: "sqrt (chisq / real N) ^ 4 = (chisq / real N)\<^sup>2"
    using b2 by (metis power2_eq_square power4_eq_xxxx mult.assoc)
  show ?thesis
    using assms by (simp add: b2 b4 power2_eq_square field_simps)
qed

lemma stf_errors_value:
  assumes "0 < chisq" and "0 < N" and "0 < M"
  shows "stf_errors N M s chisq =
         Inr (Fit4 s (sqrt (chisq / real N)) (sqrt (chisq / real N) / sqrt M)
                (1 / sqrt (3 * chisq / sqrt (chisq / real N) ^ 4
                           - real N / (sqrt (chisq / real N))\<^sup>2)))"
proof -
  have q: "0 < chisq / real N" using assms by simp
  have b: "sqrt (chisq / real N) \<noteq> 0" using assms by simp
  have "0 < 2 * (real N)\<^sup>2 / chisq" using assms by simp
  then have t: "0 < 3 * chisq / sqrt (chisq / real N) ^ 4 - real N / (sqrt (chisq / real N))\<^sup>2"
    by (simp only: stf_curvature [OF assms(1,2)])
  then have t': "real N / (sqrt (chisq / real N))\<^sup>2 < 3 * chisq / sqrt (chisq / real N) ^ 4"
    by simp
  have st: "sqrt (3 * chisq / sqrt (chisq / real N) ^ 4 - real N / (sqrt (chisq / real N))\<^sup>2) \<noteq> 0"
    using t by simp
  have N: "real N \<noteq> 0" and M: "sqrt M \<noteq> 0" using assms by simp_all
  show ?thesis
    unfolding stf_errors_def fdiv_def Let_def
    by (simp only: N M b st t t' if_False if_True bind_err_simps power_eq_0_iff
          zero_neq_numeral refl simp_thms)
qed

lemma stf_errors_returned:
  assumes "stf_errors N M s chisq = Inr (Fit4 s' b sigma_s sigma_b)"
  shows "s' = s \<and> b = sqrt (chisq / real N) \<and> sigma_s = b / sqrt M"
  using assms
  by (auto simp add: stf_errors_def fdiv_def Let_def bind_err_def split: if_splits)

text \<open>
  Claim C1. With \<open>flux = model\<close> and a uniform \<open>sigma\<close> the call is to return \<open>s = 1\<close> and
  \<open>b = 0\<close>. At three points with model \<open>[1/2, 1/2, 1]\<close> and \<open>sigma = 1\<close>, where every float
  operation is exact, the fitted scale is \<open>1\<close> and \<open>b\<close> is \<open>0\<close>, but the call does not return
  them: \<^verbatim>\<open>3*chisq/b**4\<close> divides by zero and the call raises \<^verbatim>\<open>ZeroDivisionError\<close>.
\<close>

theorem exact_fit_raises_zero_division:
  "stf_s [1/2, 1/2, 1] (Scalar 1) [1/2, 1/2, 1] (length [1/2, 1/2, 1 :: real]) = 1 \<and>
   stf_b [1/2, 1/2, 1] (Scalar 1) [1/2, 1/2, 1] (length [1/2, 1/2, 1 :: real]) = 0 \<and>
   scaled_transit_fit [1/2, 1/2, 1] (Scalar 1) [1/2, 1/2, 1] = Inl ZeroDivisionError"
proof -
  have N: "3 \<le> length [1/2, 1/2, 1 :: real]"
    and sp: "sigma_positive (Scalar 1) (length [1/2, 1/2, 1 :: real])"
    by (simp_all add: sigma_positive_def)
  have m: "stf_m (Scalar 1) [1/2, 1/2, 1] (length [1/2, 1/2, 1 :: real]) = 1/2"
    by (simp add: stf_m_def weight_def power2_eq_square)
  have s: "stf_s [1/2, 1/2, 1] (Scalar 1) [1/2, 1/2, 1] (length [1/2, 1/2, 1 :: real]) = 1"
    by (simp add: stf_s_def stf_m_def weight_def power2_eq_square)
  have c: "stf_chisq [1/2, 1/2, 1] (Scalar 1) [1/2, 1/2, 1] (length [1/2, 1/2, 1 :: real]) = 0"
    unfolding stf_chisq_def s by (simp add: weight_def)
  have "scaled_transit_fit [1/2, 1/2, 1] (Scalar 1) [1/2, 1/2, 1] =
        stf_errors (length [1/2, 1/2, 1 :: real]) (1/2) 1 0"
    by (simp only: scaled_transit_fit_sums [OF N refl sp] m s c) simp
  then show ?thesis using s c by (simp add: stf_errors_exact_fit stf_b_def)
qed

text \<open>
  Claim C4, as stated: whenever \<open>_m\<close> is non-zero the call returns the closed-form \<open>s\<close>,
  \<open>b\<close> and \<open>sigma_s\<close>. With five points that the model fits exactly (all float operations
  exact) \<open>_m\<close> is non-zero and the call raises.
\<close>

theorem normal_equations_counterexample:
  "scaled_transit_fit [1/2, 1, 1, 3/4, 1] (Array [1, 1, 2, 1, 1]) [1/2, 1, 1, 3/4, 1]
     = Inl ZeroDivisionError"
proof -
  let ?F = "[1/2, 1, 1, 3/4, 1 :: real]" and ?S = "Array [1, 1, 2, 1, 1]"
  have N: "3 \<le> length ?F" and sp: "sigma_positive ?S (length ?F)"
    by (simp_all add: sigma_positive_def)
  have m: "stf_m ?S ?F (length ?F) = 5/16"
    by (simp add: stf_m_def weight_def power2_eq_square)
  have s: "stf_s ?F ?S ?F (length ?F) = 1"
    by (simp add: stf_s_def stf_m_def weight_def power2_eq_square)
  have c: "stf_chisq ?F ?S ?F (length ?F) = 0"
    unfolding stf_chisq_def s by (simp add: weight_def)
  have "scaled_transit_fit ?F ?S ?F = stf_errors (length ?F) (5/16) 1 0"
    by (simp only: scaled_transit_fit_sums [OF N refl sp] m s c) simp
  then show ?thesis by (simp add: stf_errors_exact_fit)
qed

text \<open>
  Claim C4, amended. For every flux array, every positive sigma (scalar or array of the
  length \<open>N\<close> of the flux) and every model array of length \<open>N\<close>, whenever
  \<open>scaled_transit_fit\<close> returns a tuple of numbers, \<open>N \<ge> 3\<close>, \<open>\<Sum> w (model - 1)\<^sup>2\<close> is
  non-zero, where \<open>w = 1 / sigma\<^sup>2\<close>, and the tuple holds
  \<open>s = \<Sum> w (model - 1) (flux - 1) / \<Sum> w (model - 1)\<^sup>2\<close>,
  \<open>b = sqrt (chisq / N)\<close> with \<open>chisq = \<Sum> w ((flux - 1) - s (model - 1))\<^sup>2\<close>, and
  \<open>sigma_s = b / sqrt (\<Sum> w (model - 1)\<^sup>2)\<close>.
\<close>

theorem scaled_transit_fit_returned_values:
  assumes "length model = length flux" and "sigma_positive sigma (length flux)"
    and "scaled_transit_fit flux sigma model = Inr (Fit4 s b sigma_s sigma_b)"
  shows "3 \<le> length flux \<and>
         (\<Sum>i<length flux. weight sigma i * (model ! i - 1)\<^sup>2) \<noteq> 0 \<and>
         s = (\<Sum>i<length flux. weight sigma i * (model ! i - 1) * (flux ! i - 1))
             / (\<Sum>i<length flux. weight sigma i * (model ! i - 1)\<^sup>2) \<and>
         b = sqrt ((\<Sum>i<length flux. weight sigma i
                      * ((flux ! i - 1) - s * (model ! i - 1))\<^sup>2) / real (length flux)) \<and>
         sigma_s = b / sqrt (\<Sum>i<length flux. weight sigma i * (model ! i - 1)\<^sup>2)"
proof -
  let ?N = "length flux"
  have N: "3 \<le> ?N"
  proof (rule ccontr)
    assume "\<not> 3 \<le> ?N"
    then have "scaled_transit_fit flux sigma model = Inr NaN4"
      by (simp add: scaled_transit_fit_def)
    then show False using assms(3) by simp
  qed
  note sums = scaled_transit_fit_sums [OF N assms(1,2)]
  have m: "stf_m sigma model ?N \<noteq> 0"
  proof
    assume "stf_m sigma model ?N = 0"
    then have "scaled_transit_fit flux sigma model = Inr NaN4" by (simp add: sums)
    then show False using assms(3) by simp
  qed
  then have "stf_errors ?N (stf_m sigma model ?N) (stf_s flux sigma model ?N)
               (stf_chisq flux sigma model ?N) = Inr (Fit4 s b sigma_s sigma_b)"
    using assms(3) by (simp add: sums)
  then have "s = stf_s flux sigma model ?N \<and>
             b = sqrt (stf_chisq flux sigma model ?N / real ?N) \<and>
             sigma_s = b / sqrt (stf_m sigma model ?N)"
    by (rule stf_errors_returned)
  then show ?thesis
    using N m by (simp add: stf_s_def stf_m_def stf_chisq_def)
qed

theorem scaled_transit_fit_returned_values_witness:
  "length [0, 1, 1 :: real] = length [1/2, 1/2, 1 :: real] \<and>
   sigma_positive (Scalar 1) (length [1/2, 1/2, 1 :: real]) \<and>
   (\<exists>s b sigma_s sigma_b.
      scaled_transit_fit [1/2, 1/2, 1] (Scalar 1) [0, 1, 1] = Inr (Fit4 s b sigma_s sigma_b) \<and>
      s = 1/2 \<and> b = sqrt (1/12) \<and> sigma_s = b)"
proof -
  let ?F = "[1/2, 1/2, 1 :: real]" and ?M = "[0, 1, 1 :: real]"
  have h: "length ?M = length ?F" "sigma_positive (Scalar 1) (length ?F)"
    and N: "3 \<le> length ?F"
    by (simp_all add: sigma_positive_def)
  have m: "stf_m (Scalar 1) ?M (length ?F) = 1"
    by (simp add: stf_m_def weight_def power2_eq_square)
  have s: "stf_s ?F (Scalar 1) ?M (length ?F) = 1/2"
    by (simp add: stf_s_def stf_m_def weight_def power2_eq_square)
  have c: "stf_chisq ?F (Scalar 1) ?M (length ?F) = 1/4"
    unfolding stf_chisq_def s by (simp add: weight_def power2_eq_square)
  have "scaled_transit_fit ?F (Scalar 1) ?M = stf_errors (length ?F) 1 (1/2) (1/4)"
    by (simp only: scaled_transit_fit_sums [OF N h] m s c) simp
  also have "\<dots> = Inr (Fit4 (1/2) (sqrt (1/4 / real (length ?F)))
                      (sqrt (1/4 / real (length ?F)) / sqrt 1)
                      (1 / sqrt (3 * (1/4) / sqrt (1/4 / real (length ?F)) ^ 4
                                 - real (length ?F) / (sqrt (1/4 / real (length ?F)))\<^sup>2)))"
    by (rule stf_errors_value) simp_all
  finally obtain s' b sigma_s sigma_b
    where r: "scaled_transit_fit ?F (Scalar 1) ?M = Inr (Fit4 s' b sigma_s sigma_b)"
    by blast
  from scaled_transit_fit_returned_values [OF h r]
  have "s' = 1/2 \<and> b = sqrt (1/12) \<and> sigma_s = b"
    by (simp add: weight_def power2_eq_square)
  with r h show ?thesis by blast
qed

text \<open>
  Claim C5. The call is never to raise: in the degenerate cases it returns the
  not-a-number sentinels, otherwise the formula values. With three points, a model that is
  everywhere \<open>0\<close>, \<open>sigma = 2\<close> and \<open>flux = model\<close> (all float operations exact), \<open>N = 3\<close> and
  \<open>_m = 3/4\<close>, so the first two sentinel cases do not apply, and the call raises
  \<^verbatim>\<open>ZeroDivisionError\<close> at \<^verbatim>\<open>3*chisq/b**4\<close>, before the test \<^verbatim>\<open>_t > 0\<close> whose \<^verbatim>\<open>else\<close>
  branch returns the sentinels.
\<close>

theorem curvature_division_raises:
  "3 \<le> length [0, 0, 0 :: real] \<and> stf_m (Scalar 2) [0, 0, 0] (length [0, 0, 0 :: real]) = 3/4 \<and>
   scaled_transit_fit [0, 0, 0] (Scalar 2) [0, 0, 0] = Inl ZeroDivisionError"
proof -
  let ?F = "[0, 0, 0 :: real]" and ?S = "Scalar 2"
  have N: "3 \<le> length ?F" and sp: "sigma_positive ?S (length ?F)"
    by (simp_all add: sigma_positive_def)
  have m: "stf_m ?S ?F (length ?F) = 3/4"
    by (simp add: stf_m_def weight_def power2_eq_square)
  have s: "stf_s ?F ?S ?F (length ?F) = 1"
    by (simp add: stf_s_def stf_m_def weight_def power2_eq_square)
  have c: "stf_chisq ?F ?S ?F (length ?F) = 0"
    unfolding stf_chisq_def s by (simp add: weight_def)
  have "scaled_transit_fit ?F ?S ?F = stf_errors (length ?F) (3/4) 1 0"
    by (simp only: scaled_transit_fit_sums [OF N refl sp] m s c) simp
  then show ?thesis using m by (simp add: stf_errors_exact_fit)
qed

section \<open>Properties of the estimator with lower bounds on the errors\<close>

lemma bind_loop_simps [simp]:
  "bind_loop None f = None" "bind_loop (Some (Inl e)) f = Some (Inl e)"
  "bind_loop (Some (Inr x)) f = f x"
  by (simp_all add: bind_loop_def)

lemma np_min_Min: "model \<noteq> [] \<Longrightarrow> np_min model = Inr (Min (set model))"
proof (cases model)
  case Nil
  assume "model \<noteq> []"
  with Nil show ?thesis by simp
next
  case (Cons a list)
  have "fold min list a = Min (set (a # list))" by (rule Min.set_eq_fold [symmetric])
  then show ?thesis by (simp add: np_min_def Cons)
qed

lemma minerr_min_one:
  assumes "3 \<le> length flux" and "model \<noteq> []" and "Min (set model) = 1"
  shows "minerr_transit_fit brent brentq flux sigma model = Some (Inr (Fit2 0 0))"
  using assms by (simp add: minerr_transit_fit_def minerr_transit_fit_with_def np_min_Min)

text \<open>
  Claim C3. For every flux array of at least 3 points, every sigma and every model array
  whose minimum entry is exactly \<open>1\<close>, entries above \<open>1\<close> included, \<open>minerr_transit_fit\<close>
  returns \<open>(0, 0)\<close>. It does so before any likelihood is evaluated: the result is the same
  for every \<open>brent\<close> and \<open>brentq\<close>, and for every flux and sigma of whatever shape.
\<close>

theorem minerr_model_min_one_returns_zero:
  assumes "3 \<le> length flux" and "model \<noteq> []" and "Min (set model) = 1"
  shows "minerr_transit_fit brent brentq flux sigma model = Some (Inr (Fit2 0 0))"
  using assms by (rule minerr_min_one)

theorem minerr_model_min_one_returns_zero_witness:
  "3 \<le> length [0, 5, 2 :: real] \<and> [1, 3, 1, 2 :: real] \<noteq> [] \<and> Min (set [1, 3, 1, 2 :: real]) = 1 \<and>
   minerr_transit_fit (\<lambda>f a b c. Inl ValueError) (\<lambda>f a b. Inl ValueError)
     [0, 5, 2] (Scalar 0) [1, 3, 1, 2] = Some (Inr (Fit2 0 0))"
proof -
  have h: "3 \<le> length [0, 5, 2 :: real]" "[1, 3, 1, 2 :: real] \<noteq> []"
    "Min (set [1, 3, 1, 2 :: real]) = 1"
    by simp_all
  from minerr_model_min_one_returns_zero [OF h] h show ?thesis by blast
qed

text \<open>
  Claim C8. For every flux array of at least 3 points and every sigma, if the model array
  (not empty, as a model as long as the flux is) is everywhere exactly \<open>1\<close>, then
  \<open>minerr_transit_fit\<close> returns \<open>(0, 0)\<close>, whatever the flux and sigma values are.
\<close>

theorem minerr_flat_model_returns_zero:
  assumes "3 \<le> length flux" and "model \<noteq> []" and "\<forall>m\<in>set model. m = 1"
  shows "minerr_transit_fit brent brentq flux sigma model = Some (Inr (Fit2 0 0))"
proof -
  have "set model = {1}" using assms(2,3) by (cases model) auto
  then have "Min (set model) = 1" by simp
  with assms(1,2) show ?thesis by (simp add: minerr_min_one)
qed

theorem minerr_flat_model_returns_zero_witness:
  "3 \<le> length [7, - 2, 1/3 :: real] \<and> [1, 1, 1 :: real] \<noteq> [] \<and>
   minerr_transit_fit (\<lambda>f a b c. Inl ValueError) (\<lambda>f a b. Inl ValueError)
     [7, - 2, 1/3] (Array [0, 4, 1]) [1, 1, 1] = Some (Inr (Fit2 0 0))"
proof -
  have h: "3 \<le> length [7, - 2, 1/3 :: real]" "[1, 1, 1 :: real] \<noteq> []"
    "\<forall>m\<in>set [1, 1, 1 :: real]. m = 1"
    by simp_all
  from minerr_flat_model_returns_zero [OF h] h show ?thesis by blast
qed















end
